theory Spec2Isabelle
  imports Main "HOL-Library.Word"
begin

section \<open>Predeclared builtins of the evaluator (internal/core/compile/builtin.go)\<close>

text \<open>
  The file builtin.go defines the builtins \<open>len\<close>, \<open>close\<close>, \<open>and\<close>, \<open>or\<close>, \<open>div\<close>,
  \<open>mod\<close>, \<open>quo\<close> and \<open>rem\<close> as the \<open>Func\<close> bodies of \<open>adt.Builtin\<close> descriptors. Each
  body is embedded below under the name of its descriptor. The package \<open>adt\<close> (values,
  vertices, the operation context) is a separate package; what the bodies use of it is
  modelled from the specification and marked as such.

  A Go call either returns or panics; \<open>Panics\<close> carries the run-time message.
\<close>

datatype 'a Go = Panics string | Returns 'a

subsection \<open>Kinds\<close>

text \<open>
  Modelled from the spec: \<open>adt.Kind\<close> and its constants. The specification describes a
  kind as a bitset with union and an intersection-emptiness test, the error kind
  \<open>BottomKind\<close> being the empty bitset; a bitset is rendered as the set of its bits.
\<close>

datatype BasicKind = KNull | KBool | KInt | KFloat | KString | KBytes | KList | KStruct

type_synonym Kind = "BasicKind set"

definition BottomKind :: Kind where "BottomKind = {}"
definition IntKind :: Kind where "IntKind = {KInt}"
definition FloatKind :: Kind where "FloatKind = {KFloat}"
definition StringKind :: Kind where "StringKind = {KString}"
definition BytesKind :: Kind where "BytesKind = {KBytes}"
definition ListKind :: Kind where "ListKind = {KList}"
definition StructKind :: Kind where "StructKind = {KStruct}"
definition TopKind :: Kind where
  "TopKind = {KNull, KBool, KInt, KFloat, KString, KBytes, KList, KStruct}"

text \<open>\<^verbatim>\<open>const supportedByLen = adt.StructKind | adt.BytesKind | adt.StringKind | adt.ListKind\<close>\<close>

definition supportedByLen :: Kind where
  "supportedByLen = StructKind \<union> BytesKind \<union> StringKind \<union> ListKind"

subsection \<open>Decimals (apd.Decimal) and integers (big.Int)\<close>

text \<open>
  An \<open>apd.Decimal\<close> is a sign flag, a nonnegative magnitude \<open>Coeff\<close> (a \<open>big.Int\<close>,
  rendered as an unbounded \<open>int\<close>) and a decimal exponent: its value is
  \<open>(-1)^Negative * Coeff * 10^Exponent\<close>. The zero value of the struct is the finite
  decimal 0.
\<close>

datatype Form = Finite | Infinite | NaN

record Decimal =
  Form :: Form
  Negative :: bool
  Exponent :: int
  Coeff :: int

definition zeroDecimal :: Decimal where
  "zeroDecimal = \<lparr>Form = Finite, Negative = False, Exponent = 0, Coeff = 0\<rparr>"

text \<open>\<open>apd.Decimal.IsZero\<close>: the decimal is finite and its magnitude is 0.\<close>

definition IsZero :: "Decimal \<Rightarrow> bool" where
  "IsZero d = (Form d = Finite \<and> Coeff d = 0)"

text \<open>
  Modelled from the spec: \<open>apdCtx.RoundToIntegralValue\<close> of the library \<open>apd\<close>, which the
  specification describes as rounding a decimal numeral to its nearest integral value.
  The result has exponent 0 and the sign of the operand. A nonnegative exponent is
  folded into the magnitude; a negative one drops \<open>- Exponent\<close> digits, a dropped part
  of one half or more rounding the magnitude up. Numerals that are not finite are
  copied.
\<close>

definition RoundToIntegralValue :: "Decimal \<Rightarrow> Decimal" where
  "RoundToIntegralValue v =
     (if Form v \<noteq> Finite then v
      else if 0 \<le> Exponent v
        then v\<lparr>Exponent := 0, Coeff := Coeff v * 10 ^ nat (Exponent v)\<rparr>
      else
        (let p = 10 ^ nat (- Exponent v);
             q = Coeff v div p;
             r = Coeff v mod p
         in v\<lparr>Exponent := 0, Coeff := (if p \<le> 2 * r then q + 1 else q)\<rparr>))"

text \<open>
  The four methods of \<open>big.Int\<close> that the builtins pass to \<open>intDivOp\<close>, as the Go
  standard library defines them. \<open>Quo\<close> and \<open>Rem\<close> are T-division: the magnitudes are
  divided, the quotient is negative when the signs of the operands differ and the
  remainder takes the sign of the dividend. \<open>Div\<close> and \<open>Mod\<close> run \<open>QuoRem\<close> and adjust
  the result when the remainder is negative. All four panic on a zero divisor.
\<close>

type_synonym intFunc = "int \<Rightarrow> int \<Rightarrow> int Go"

definition QuoRem :: "int \<Rightarrow> int \<Rightarrow> int \<times> int" where
  "QuoRem x y = (sgn x * sgn y * (\<bar>x\<bar> div \<bar>y\<bar>), sgn x * (\<bar>x\<bar> mod \<bar>y\<bar>))"

definition big_Int_Quo :: intFunc where
  "big_Int_Quo x y =
     (if y = 0 then Panics ''division by zero'' else Returns (fst (QuoRem x y)))"

definition big_Int_Rem :: intFunc where
  "big_Int_Rem x y =
     (if y = 0 then Panics ''division by zero'' else Returns (snd (QuoRem x y)))"

definition big_Int_Div :: intFunc where
  "big_Int_Div x y =
     (if y = 0 then Panics ''division by zero''
      else
        (let (q, r) = QuoRem x y
         in Returns (if r < 0 then (if y < 0 then q + 1 else q - 1) else q)))"

definition big_Int_Mod :: intFunc where
  "big_Int_Mod x y =
     (if y = 0 then Panics ''division by zero''
      else
        (let (q, r) = QuoRem x y
         in Returns (if r < 0 then (if y < 0 then r - y else r + y) else r)))"

subsection \<open>Values\<close>

text \<open>
  Modelled from the spec: the implementations of the interface \<open>adt.Value\<close>. A vertex is
  held by pointer (\<open>*adt.Vertex\<close>), so the value is its address in the store below.
  \<open>BasicType\<close> stands for a value that is known by its kind only, such as an
  unresolved reference. A \<open>Bottom\<close> carries its code and its message, the message as
  the format string and the arguments it was built from.
\<close>

type_synonym addr = nat

datatype ErrorCode = Error | IncompleteError

record Num =
  K :: Kind
  X :: Decimal

datatype Value =
    VertexRef addr
  | Bytes "8 word list"
  | String string
  | NumVal Num
  | Bottom ErrorCode string "FmtArg list"
  | Top
  | Conjunction "Value list"
  | Disjunction "(Value \<times> bool) list"
  | BasicType Kind
and FmtArg = KindArg Kind | StrArg Value

subsection \<open>The operation context\<close>

text \<open>
  Modelled from the spec: \<open>adt.OpContext\<close>, reduced to its accumulated-error state. A
  failed conversion is recorded there with the offending value and the role it was
  converted for; \<open>HasErr\<close> asks whether anything was recorded.
\<close>

record OpContext =
  errs :: "(Value \<times> string) list"

definition HasErr :: "OpContext \<Rightarrow> bool" where
  "HasErr c = (errs c \<noteq> [])"

definition typeErrorAs :: "OpContext \<Rightarrow> Value \<Rightarrow> string \<Rightarrow> OpContext" where
  "typeErrorAs c v as = c\<lparr>errs := errs c @ [(v, as)]\<rparr>"

text \<open>
  Modelled from the spec: \<open>c.Num\<close>, the numeric conversion of a value to a decimal
  numeral. It succeeds on a number of either numeric kind; on any other value it
  records the failure in the context and hands back the zero number.
\<close>

definition zeroNum :: Num where
  "zeroNum = \<lparr>K = BottomKind, X = zeroDecimal\<rparr>"

definition Num :: "OpContext \<Rightarrow> Value \<Rightarrow> string \<Rightarrow> Num \<times> OpContext" where
  "Num c v as = (case v of NumVal n \<Rightarrow> (n, c) | _ \<Rightarrow> (zeroNum, typeErrorAs c v as))"

text \<open>
  Modelled from the spec: the constructors of the context. \<open>c.NewErrf\<close> builds a hard
  error from a format string and its arguments and does not touch the context;
  \<open>c.NewNum\<close> wraps a decimal with the given kind; \<open>c.NewInt64\<close> makes the integer of
  an \<open>int64\<close>, in sign and magnitude.
\<close>

definition NewErrf :: "OpContext \<Rightarrow> string \<Rightarrow> FmtArg list \<Rightarrow> Value" where
  "NewErrf c format args = Bottom Error format args"

definition NewNum :: "OpContext \<Rightarrow> Decimal \<Rightarrow> Kind \<Rightarrow> Value" where
  "NewNum c d k = NumVal \<lparr>K = k, X = d\<rparr>"

definition decimalOfInt :: "int \<Rightarrow> Decimal" where
  "decimalOfInt n = \<lparr>Form = Finite, Negative = (n < 0), Exponent = 0, Coeff = \<bar>n\<bar>\<rparr>"

definition NewInt64 :: "OpContext \<Rightarrow> int \<Rightarrow> Value" where
  "NewInt64 c n = NumVal \<lparr>K = IntKind, X = decimalOfInt n\<rparr>"

subsection \<open>The division family\<close>

text \<open>
  \<open>intDivOp\<close>: both arguments are converted before the context is asked for a pending
  error; a pending error ends the call with the nil value (\<open>None\<close>). The divisor is
  tested for zero as converted, before any rounding. The operands are then rounded,
  their magnitudes negated under a set sign flag, the integer function is run on the
  two signed integers, and the signed result is put back into sign and magnitude.
  Indexing \<open>args\<close> beyond its length panics.
\<close>

definition signedCoeff :: "Decimal \<Rightarrow> Decimal" where
  "signedCoeff x = (if Negative x then x\<lparr>Coeff := - Coeff x\<rparr> else x)"

definition intDivOp ::
  "OpContext \<Rightarrow> intFunc \<Rightarrow> string \<Rightarrow> Value list \<Rightarrow> (Value option \<times> OpContext) Go" where
  "intDivOp c fn name args =
     (case args of
        a0 # a1 # _ \<Rightarrow>
          (let (a, c1) = Num c a0 name;
               (b, c2) = Num c1 a1 name
           in if HasErr c2 then Returns (None, c2)
              else if IsZero (X b)
                then Returns (Some (NewErrf c2 ''division by zero'' []), c2)
              else
                (let x = signedCoeff (RoundToIntegralValue (X a));
                     y = signedCoeff (RoundToIntegralValue (X b))
                 in case fn (Coeff x) (Coeff y) of
                      Panics msg \<Rightarrow> Panics msg
                    | Returns q \<Rightarrow>
                        (let d = (if q < 0
                                  then zeroDecimal\<lparr>Coeff := - q, Negative := True\<rparr>
                                  else zeroDecimal\<lparr>Coeff := q\<rparr>)
                         in Returns (Some (NewNum c2 d IntKind), c2))))
      | _ \<Rightarrow> Panics ''index out of range'')"

definition divBuiltin :: "OpContext \<Rightarrow> Value list \<Rightarrow> (Value option \<times> OpContext) Go" where
  "divBuiltin c args = intDivOp c big_Int_Div ''argument to div builtin'' args"

definition modBuiltin :: "OpContext \<Rightarrow> Value list \<Rightarrow> (Value option \<times> OpContext) Go" where
  "modBuiltin c args = intDivOp c big_Int_Mod ''argument to mod builtin'' args"

definition quoBuiltin :: "OpContext \<Rightarrow> Value list \<Rightarrow> (Value option \<times> OpContext) Go" where
  "quoBuiltin c args = intDivOp c big_Int_Quo ''argument to quo builtin'' args"

definition remBuiltin :: "OpContext \<Rightarrow> Value list \<Rightarrow> (Value option \<times> OpContext) Go" where
  "remBuiltin c args = intDivOp c big_Int_Rem ''argument to rem builtin'' args"

text \<open>An integer argument \<open>n\<close>: the number of kind \<open>IntKind\<close> whose decimal is \<open>n\<close>.\<close>

definition IntArg :: "int \<Rightarrow> Value" where
  "IntArg n = NumVal \<lparr>K = IntKind, X = decimalOfInt n\<rparr>"

subsection \<open>Vertices and the store\<close>

text \<open>
  Modelled from the spec: \<open>adt.Feature\<close>, the label of an arc, tagged regular, hidden
  or definition; only a regular label counts towards the observable size.
  \<open>InvalidLabel\<close> is the zero value, the label of a node made by \<^verbatim>\<open>&adt.Vertex{}\<close>.
\<close>

datatype Feature = InvalidLabel | Regular nat | Hidden nat | Definition nat

fun IsRegular :: "Feature \<Rightarrow> bool" where
  "IsRegular (Regular _) = True"
| "IsRegular _ = False"

text \<open>
  Modelled from the spec: expressions and conjuncts, as far as \<open>or\<close> builds them. A
  \<open>DisjunctionExpr\<close> lists its alternatives, each with its default mark, and says
  whether any is a default. A conjunct pairs an expression with its environment,
  \<open>None\<close> for the nil environment of a root conjunct.
\<close>

datatype Expr =
    ValueExpr Value
  | DisjunctionExpr (Values: "Disjunct list") (HasDefaults: bool)
and Disjunct = Disjunct (Val: Expr) (Default: bool)

record Conjunct =
  Env :: "addr option"
  Expr :: Expr

definition MakeRootConjunct :: "addr option \<Rightarrow> Expr \<Rightarrow> Conjunct" where
  "MakeRootConjunct env e = \<lparr>Env = env, Expr = e\<rparr>"

text \<open>
  Modelled from the spec: \<open>adt.Vertex\<close>, a node of the graph. Its \<open>BaseValue\<close> is nil
  (\<open>None\<close>) while the node is unevaluated, a list marker, a struct marker with its
  closedness flag \<open>NeedClose\<close>, or a scalar value. \<open>Arcs\<close> holds pointers to the
  nodes of the arcs, so two nodes with the same \<open>Arcs\<close> share their arcs.
\<close>

datatype BaseValue = ListMarker | StructMarker (NeedClose: bool) | BaseVal Value

record Vertex =
  Label :: Feature
  BaseValue :: "BaseValue option"
  Arcs :: "addr list"
  Conjuncts :: "Conjunct list"

definition zeroVertex :: Vertex where
  "zeroVertex = \<lparr>Label = InvalidLabel, BaseValue = None, Arcs = [], Conjuncts = []\<rparr>"

text \<open>
  The store holds the vertices by address. Every address holds a vertex, so a pointer
  is never nil. The addresses below \<open>allocated\<close> are in use; allocation takes the
  next one and leaves every cell in use as it is.
\<close>

record Heap =
  cells :: "addr \<Rightarrow> Vertex"
  allocated :: nat

definition alloc :: "Heap \<Rightarrow> Vertex \<Rightarrow> addr \<times> Heap" where
  "alloc h v =
     (allocated h, h\<lparr>cells := (cells h)(allocated h := v), allocated := Suc (allocated h)\<rparr>)"

text \<open>
  Modelled from the spec: \<open>Vertex.Elems\<close>, the elements of a list node (its arcs, in
  order), \<open>Vertex.IsClosed\<close>, which reads the closedness marker of a struct node, and
  \<open>Vertex.AddConjunct\<close>, which attaches a constraint to a node.
\<close>

definition Elems :: "Vertex \<Rightarrow> addr list" where
  "Elems x = Arcs x"

definition IsClosed :: "Vertex \<Rightarrow> bool" where
  "IsClosed x = (case BaseValue x of Some (StructMarker nc) \<Rightarrow> nc | _ \<Rightarrow> False)"

definition AddConjunct :: "Heap \<Rightarrow> addr \<Rightarrow> Conjunct \<Rightarrow> Heap" where
  "AddConjunct h v cj =
     h\<lparr>cells := (cells h)(v := (cells h v)\<lparr>Conjuncts := Conjuncts (cells h v) @ [cj]\<rparr>)\<rparr>"

text \<open>
  Modelled from the spec: \<open>c.Elems\<close>, the extraction of a list's element values. On
  a list node it yields the pointers to the elements; on anything else the failure
  is recorded in the context and there are no elements.
\<close>

definition OpContext_Elems :: "OpContext \<Rightarrow> Heap \<Rightarrow> Value \<Rightarrow> addr list \<times> OpContext" where
  "OpContext_Elems c h v =
     (case v of
        VertexRef p \<Rightarrow>
          (case BaseValue (cells h p) of
             Some ListMarker \<Rightarrow> (Elems (cells h p), c)
           | _ \<Rightarrow> ([], typeErrorAs c v ''list''))
      | _ \<Rightarrow> ([], typeErrorAs c v ''list''))"

subsection \<open>len\<close>

text \<open>
  The loop of the struct case: \<open>n\<close> goes up by one for every arc whose label is
  regular.
\<close>

fun countRegular :: "Heap \<Rightarrow> addr list \<Rightarrow> nat \<Rightarrow> nat" where
  "countRegular h [] n = n"
| "countRegular h (a # as) n =
     countRegular h as (if IsRegular (Label (cells h a)) then n + 1 else n)"

text \<open>
  \<^verbatim>\<open>b := c.NewErrf(...); b.Code = adt.IncompleteError\<close>: the code of a freshly made
  \<open>Bottom\<close> is overwritten.
\<close>

fun setCode :: "ErrorCode \<Rightarrow> Value \<Rightarrow> Value" where
  "setCode code (Bottom _ format args) = Bottom code format args"
| "setCode code v = v"

text \<open>
  The second switch of \<open>len\<close>, on the value left after unwrapping. \<open>x.Kind()\<close> is a
  method of the value with an implementation per variant in \<open>adt\<close>; it is the
  parameter \<open>kind\<close>.
\<close>

definition lenValue :: "(Value \<Rightarrow> Kind) \<Rightarrow> OpContext \<Rightarrow> Value \<Rightarrow> Value" where
  "lenValue kind c v =
     (case v of
        Bytes b \<Rightarrow> NewInt64 c (int (length b))
      | String s \<Rightarrow> NewInt64 c (int (length s))
      | _ \<Rightarrow>
          (let k = kind v
           in if k \<inter> supportedByLen = BottomKind
              then NewErrf c ''invalid argument type %v'' [KindArg k]
              else setCode IncompleteError
                     (NewErrf c ''incomplete argument %s (type %v)'' [StrArg v, KindArg k])))"

text \<open>
  \<open>lenBuiltin\<close>: the first switch is on the \<open>BaseValue\<close> of a vertex argument; its
  default case unwraps the vertex to its scalar (\<open>x.Value()\<close>) and falls through to
  the second switch. \<open>len\<close> of a Go slice or string is an \<open>int\<close>, so the conversion
  to \<open>int64\<close> loses nothing.
\<close>

definition lenBuiltin :: "(Value \<Rightarrow> Kind) \<Rightarrow> OpContext \<Rightarrow> Heap \<Rightarrow> Value list \<Rightarrow> Value Go" where
  "lenBuiltin kind c h args =
     (case args of
        [] \<Rightarrow> Panics ''index out of range''
      | v # _ \<Rightarrow>
          Returns
            (case v of
               VertexRef p \<Rightarrow>
                 (let x = cells h p
                  in case BaseValue x of
                       None \<Rightarrow> NewErrf c ''unevaluated vertex'' []
                     | Some ListMarker \<Rightarrow> NewInt64 c (int (length (Elems x)))
                     | Some (StructMarker _) \<Rightarrow> NewInt64 c (int (countRegular h (Arcs x) 0))
                     | Some (BaseVal w) \<Rightarrow> lenValue kind c w)
             | _ \<Rightarrow> lenValue kind c v))"

subsection \<open>close\<close>

text \<open>
  \<open>closeBuiltin\<close>: a closed node is returned as it is. Otherwise \<^verbatim>\<open>v := *s\<close> copies
  the node, the copy gets a new struct marker with \<open>NeedClose\<close> set, and the address
  of the copy is returned; the node behind \<open>s\<close> is not written to.
\<close>

definition closeBuiltin :: "OpContext \<Rightarrow> Heap \<Rightarrow> Value list \<Rightarrow> (Value \<times> Heap) Go" where
  "closeBuiltin c h args =
     (case args of
        [] \<Rightarrow> Panics ''index out of range''
      | a0 # _ \<Rightarrow>
          (case a0 of
             VertexRef s \<Rightarrow>
               if IsClosed (cells h s) then Returns (VertexRef s, h)
               else
                 (let v = (cells h s)\<lparr>BaseValue := Some (StructMarker True)\<rparr>;
                      (p, h') = alloc h v
                  in Returns (VertexRef p, h'))
           | _ \<Rightarrow> Returns (NewErrf c ''struct argument must be concrete'' [], h)))"

subsection \<open>and, or\<close>

text \<open>
  \<open>andBuiltin\<close>: no elements give \<open>Top\<close>; otherwise the loop appends every element
  to an empty slice, which becomes the values of a conjunction.
\<close>

definition andBuiltin :: "OpContext \<Rightarrow> Heap \<Rightarrow> Value list \<Rightarrow> (Value \<times> OpContext) Go" where
  "andBuiltin c h args =
     (case args of
        [] \<Rightarrow> Panics ''index out of range''
      | a0 # _ \<Rightarrow>
          (let (list, c1) = OpContext_Elems c h a0
           in if length list = 0 then Returns (Top, c1)
              else
                (let a = foldl (\<lambda>a e. a @ [VertexRef e]) [] list
                 in Returns (Conjunction a, c1))))"

text \<open>
  Modelled from the spec: the states that the engine can be asked to bring a node
  to; \<open>or\<close> asks for \<open>Finalized\<close>. The unify step itself, \<open>c.Unify\<close>, belongs to
  the engine and is the parameter \<open>unify\<close> of \<open>orBuiltin\<close>: it may change the
  context and the store.
\<close>

datatype VertexStatus = Partial | Finalized

type_synonym Unifier = "OpContext \<Rightarrow> Heap \<Rightarrow> addr \<Rightarrow> VertexStatus \<Rightarrow> OpContext \<times> Heap"

text \<open>
  \<open>orBuiltin\<close>: the loop makes one non-default disjunct per element. With none, the
  result is an incomplete error. Otherwise a new zero vertex is allocated, the
  disjunction is added to it as a root conjunct, the engine unifies the vertex up to
  \<open>Finalized\<close>, and the vertex is returned.
\<close>

definition orBuiltin ::
  "Unifier \<Rightarrow> OpContext \<Rightarrow> Heap \<Rightarrow> Value list \<Rightarrow> (Value \<times> OpContext \<times> Heap) Go" where
  "orBuiltin unify c h args =
     (case args of
        [] \<Rightarrow> Panics ''index out of range''
      | a0 # _ \<Rightarrow>
          (let (list, c1) = OpContext_Elems c h a0;
               d = foldl (\<lambda>d e. d @ [Disjunct (ValueExpr (VertexRef e)) False]) [] list
           in if length d = 0
              then Returns (Bottom IncompleteError ''empty list in call to or'' [], c1, h)
              else
                (let (v, h1) = alloc h zeroVertex;
                     h2 = AddConjunct h1 v (MakeRootConjunct None (DisjunctionExpr d False));
                     (c3, h3) = unify c1 h2 v Finalized
                 in Returns (VertexRef v, c3, h3))))"

subsection \<open>Notions used to state the properties\<close>

text \<open>
  \<open>isNumber\<close> tells the values on which the numeric conversion \<open>c.Num\<close> succeeds.
  \<open>unwrap\<close> is the value that the second switch of \<open>len\<close> sees: the argument itself
  when it is not a vertex, the scalar of a vertex that holds one, and nothing for a
  list node, a struct node or an unevaluated node.
\<close>

definition isNumber :: "Value \<Rightarrow> bool" where
  "isNumber v = (case v of NumVal _ \<Rightarrow> True | _ \<Rightarrow> False)"

text \<open>
  \<open>isInteger\<close> tells the decimals whose value is an integer, the values that an
  argument of the declared kind \<open>IntKind\<close> has: the decimal is finite and its exponent
  is nonnegative or cuts off zero digits only.
\<close>

definition isInteger :: "Decimal \<Rightarrow> bool" where
  "isInteger d =
     (Form d = Finite \<and> (0 \<le> Exponent d \<or> Coeff d mod 10 ^ nat (- Exponent d) = 0))"

definition unwrap :: "Heap \<Rightarrow> Value \<Rightarrow> Value option" where
  "unwrap h v =
     (case v of
        VertexRef p \<Rightarrow> (case BaseValue (cells h p) of Some (BaseVal w) \<Rightarrow> Some w | _ \<Rightarrow> None)
      | _ \<Rightarrow> Some v)"

subsection \<open>Sample data\<close>

text \<open>
  A store with an open struct (node 0) over a regular string field, a hidden bytes
  field, a definition of type \<open>string\<close> and a regular integer field (nodes 1 to 4),
  a list of three elements (node 5), an empty list (node 6), an unevaluated node
  (node 7) and a closed struct (node 8); a kind function for scalars; a unifier that
  resolves a node to \<open>Top\<close>; and an integer function that reports being called.
\<close>

definition sampleCells :: "addr \<Rightarrow> Vertex" where
  "sampleCells =
     (\<lambda>_. zeroVertex)
       (0 := \<lparr>Label = InvalidLabel, BaseValue = Some (StructMarker False),
              Arcs = [1, 2, 3, 4], Conjuncts = []\<rparr>,
        1 := \<lparr>Label = Regular 0, BaseValue = Some (BaseVal (String ''ab'')),
              Arcs = [], Conjuncts = []\<rparr>,
        2 := \<lparr>Label = Hidden 1, BaseValue = Some (BaseVal (Bytes [1, 2, 3])),
              Arcs = [], Conjuncts = []\<rparr>,
        3 := \<lparr>Label = Definition 2, BaseValue = Some (BaseVal (BasicType StringKind)),
              Arcs = [], Conjuncts = []\<rparr>,
        4 := \<lparr>Label = Regular 3, BaseValue = Some (BaseVal (IntArg 5)),
              Arcs = [], Conjuncts = []\<rparr>,
        5 := \<lparr>Label = InvalidLabel, BaseValue = Some ListMarker,
              Arcs = [1, 4, 1], Conjuncts = []\<rparr>,
        6 := \<lparr>Label = InvalidLabel, BaseValue = Some ListMarker,
              Arcs = [], Conjuncts = []\<rparr>,
        8 := \<lparr>Label = InvalidLabel, BaseValue = Some (StructMarker True),
              Arcs = [1], Conjuncts = []\<rparr>)"

definition sampleHeap :: Heap where
  "sampleHeap = \<lparr>cells = sampleCells, allocated = 9\<rparr>"

fun sampleKind :: "Value \<Rightarrow> Kind" where
  "sampleKind (Bytes _) = BytesKind"
| "sampleKind (String _) = StringKind"
| "sampleKind (NumVal n) = K n"
| "sampleKind (Bottom _ _ _) = BottomKind"
| "sampleKind (BasicType k) = k"
| "sampleKind _ = TopKind"

definition sampleUnify :: Unifier where
  "sampleUnify c h v s =
     (c, h\<lparr>cells := (cells h)(v := (cells h v)\<lparr>BaseValue := Some (BaseVal Top)\<rparr>)\<rparr>)"


section \<open>Properties\<close>

subsection \<open>Integer division of \<open>big.Int\<close>\<close>

lemma QuoRem_eq:
  assumes "y \<noteq> 0"
  shows "fst (QuoRem x y) * y + snd (QuoRem x y) = x"
proof -
  have sy: "sgn y * y = \<bar>y\<bar>" by (simp add: sgn_if)
  have "fst (QuoRem x y) * y = sgn x * ((\<bar>x\<bar> div \<bar>y\<bar>) * (sgn y * y))"
    by (simp add: QuoRem_def)
  then have "fst (QuoRem x y) * y + snd (QuoRem x y)
        = sgn x * ((\<bar>x\<bar> div \<bar>y\<bar>) * \<bar>y\<bar> + \<bar>x\<bar> mod \<bar>y\<bar>)"
    by (simp only: sy QuoRem_def snd_conv distrib_left)
  also have "\<dots> = sgn x * \<bar>x\<bar>" by simp
  also have "\<dots> = x" by (simp add: sgn_if)
  finally show ?thesis .
qed

lemma abs_mod_abs_nonneg: "0 \<le> \<bar>x\<bar> mod \<bar>y\<bar>" for x y :: int
  by (cases "y = 0") simp_all

lemma QuoRem_rem_bound:
  assumes "y \<noteq> 0"
  shows "\<bar>snd (QuoRem x y)\<bar> < \<bar>y\<bar>"
  using assms abs_mod_abs_nonneg [of x y] by (simp add: QuoRem_def abs_mult sgn_if)

lemma QuoRem_rem_sign:
  "snd (QuoRem x y) = 0 \<or> sgn (snd (QuoRem x y)) = sgn x"
  using abs_mod_abs_nonneg [of x y] by (cases "\<bar>x\<bar> mod \<bar>y\<bar> = 0") (simp_all add: QuoRem_def sgn_mult)

lemma big_Int_Div_Mod:
  assumes "y \<noteq> 0"
  shows "\<exists>q m. big_Int_Div x y = Returns q \<and> big_Int_Mod x y = Returns m
     \<and> q * y + m = x \<and> 0 \<le> m \<and> m < \<bar>y\<bar>"
proof -
  obtain q r where qr: "QuoRem x y = (q, r)" by (cases "QuoRem x y")
  from QuoRem_eq [OF assms, of x] qr have e: "q * y + r = x" by simp
  from QuoRem_rem_bound [OF assms, of x] qr have b: "\<bar>r\<bar> < \<bar>y\<bar>" by simp
  show ?thesis
    using assms e b by (auto simp add: big_Int_Div_def big_Int_Mod_def qr algebra_simps)
qed

lemma big_Int_Quo_Rem:
  assumes "y \<noteq> 0"
  shows "\<exists>q r. big_Int_Quo x y = Returns q \<and> big_Int_Rem x y = Returns r
     \<and> q * y + r = x \<and> \<bar>r\<bar> < \<bar>y\<bar> \<and> (r = 0 \<or> sgn r = sgn x)"
  using assms QuoRem_eq [OF assms, of x] QuoRem_rem_bound [OF assms, of x] QuoRem_rem_sign [of x y]
  by (simp add: big_Int_Quo_def big_Int_Rem_def)

subsection \<open>The division family on integer arguments\<close>

lemma Num_NumVal: "Num c (NumVal n) name = (n, c)"
  by (simp add: Num_def)

lemma signedCoeff_round_decimalOfInt:
  "Coeff (signedCoeff (RoundToIntegralValue (decimalOfInt n))) = n"
  by (simp add: signedCoeff_def RoundToIntegralValue_def decimalOfInt_def)

lemma IsZero_decimalOfInt: "IsZero (decimalOfInt n) \<longleftrightarrow> n = 0"
  by (simp add: IsZero_def decimalOfInt_def)

lemma result_decimalOfInt:
  "(if q < 0 then zeroDecimal\<lparr>Coeff := - q, Negative := True\<rparr> else zeroDecimal\<lparr>Coeff := q\<rparr>)
     = decimalOfInt q"
  by (simp add: zeroDecimal_def decimalOfInt_def)

lemma intDivOp_IntArg:
  assumes "\<not> HasErr c" "y \<noteq> 0"
  shows "intDivOp c fn name [IntArg x, IntArg y] =
     (case fn x y of Panics msg \<Rightarrow> Panics msg | Returns q \<Rightarrow> Returns (Some (IntArg q), c))"
  using assms
  by (simp add: intDivOp_def IntArg_def Num_NumVal IsZero_decimalOfInt
      signedCoeff_round_decimalOfInt result_decimalOfInt NewNum_def split: Go.split)

text \<open>
  C1. For all integers \<open>x\<close> and \<open>y\<close> with \<open>y\<close> nonzero, called in a context with no
  pending error, \<open>div\<close> and \<open>mod\<close> return integers \<open>q\<close> and \<open>m\<close> that are the
  Euclidean quotient and remainder: \<open>q * y + m = x\<close> and \<open>m\<close> lies in \<open>[0, |y|)\<close>.
\<close>

theorem div_mod_euclidean:
  assumes "y \<noteq> 0" and "\<not> HasErr c"
  shows "\<exists>q m. divBuiltin c [IntArg x, IntArg y] = Returns (Some (IntArg q), c)
           \<and> modBuiltin c [IntArg x, IntArg y] = Returns (Some (IntArg m), c)
           \<and> q * y + m = x \<and> 0 \<le> m \<and> m < \<bar>y\<bar>"
proof -
  from big_Int_Div_Mod [OF assms(1), of x] obtain q m where
    "big_Int_Div x y = Returns q" "big_Int_Mod x y = Returns m"
    "q * y + m = x" "0 \<le> m" "m < \<bar>y\<bar>" by blast
  then show ?thesis
    using assms
    by (intro exI [of _ q] exI [of _ m]) (simp add: divBuiltin_def modBuiltin_def intDivOp_IntArg)
qed

theorem div_mod_euclidean_witness:
  "divBuiltin \<lparr>errs = []\<rparr> [IntArg (- 7), IntArg 2] = Returns (Some (IntArg (- 4)), \<lparr>errs = []\<rparr>)
   \<and> modBuiltin \<lparr>errs = []\<rparr> [IntArg (- 7), IntArg 2] = Returns (Some (IntArg 1), \<lparr>errs = []\<rparr>)"
proof -
  have h1: "(2::int) \<noteq> 0" by simp
  have h2: "\<not> HasErr \<lparr>errs = []\<rparr>" by (simp add: HasErr_def)
  from div_mod_euclidean [OF h1 h2, of "- 7"] obtain q m where
    d: "divBuiltin \<lparr>errs = []\<rparr> [IntArg (- 7), IntArg 2] = Returns (Some (IntArg q), \<lparr>errs = []\<rparr>)"
    and m: "modBuiltin \<lparr>errs = []\<rparr> [IntArg (- 7), IntArg 2] = Returns (Some (IntArg m), \<lparr>errs = []\<rparr>)"
    and e: "q * 2 + m = - 7" and b: "0 \<le> m" "m < \<bar>2::int\<bar>" by blast
  from e b have "m = 1 \<and> q = - 4" by arith
  with d m show ?thesis by simp
qed

text \<open>
  C2. For all integers \<open>x\<close> and \<open>y\<close> with \<open>y\<close> nonzero, called in a context with no
  pending error, \<open>quo\<close> and \<open>rem\<close> return integers \<open>q\<close> and \<open>r\<close> of the truncated
  division: \<open>q * y + r = x\<close>, \<open>r\<close> is smaller than \<open>y\<close> in magnitude, and \<open>r\<close> is zero
  or has the sign of the dividend \<open>x\<close>.
\<close>

theorem quo_rem_truncated:
  assumes "y \<noteq> 0" and "\<not> HasErr c"
  shows "\<exists>q r. quoBuiltin c [IntArg x, IntArg y] = Returns (Some (IntArg q), c)
           \<and> remBuiltin c [IntArg x, IntArg y] = Returns (Some (IntArg r), c)
           \<and> q * y + r = x \<and> \<bar>r\<bar> < \<bar>y\<bar> \<and> (r = 0 \<or> sgn r = sgn x)"
proof -
  from big_Int_Quo_Rem [OF assms(1), of x] obtain q r where
    "big_Int_Quo x y = Returns q" "big_Int_Rem x y = Returns r"
    "q * y + r = x" "\<bar>r\<bar> < \<bar>y\<bar>" "r = 0 \<or> sgn r = sgn x" by blast
  then show ?thesis
    using assms
    by (intro exI [of _ q] exI [of _ r]) (simp add: quoBuiltin_def remBuiltin_def intDivOp_IntArg)
qed

theorem quo_rem_truncated_witness:
  "quoBuiltin \<lparr>errs = []\<rparr> [IntArg (- 7), IntArg 2] = Returns (Some (IntArg (- 3)), \<lparr>errs = []\<rparr>)
   \<and> remBuiltin \<lparr>errs = []\<rparr> [IntArg (- 7), IntArg 2] = Returns (Some (IntArg (- 1)), \<lparr>errs = []\<rparr>)"
proof -
  have h1: "(2::int) \<noteq> 0" by simp
  have h2: "\<not> HasErr \<lparr>errs = []\<rparr>" by (simp add: HasErr_def)
  from quo_rem_truncated [OF h1 h2, of "- 7"] obtain q r where
    d: "quoBuiltin \<lparr>errs = []\<rparr> [IntArg (- 7), IntArg 2] = Returns (Some (IntArg q), \<lparr>errs = []\<rparr>)"
    and m: "remBuiltin \<lparr>errs = []\<rparr> [IntArg (- 7), IntArg 2] = Returns (Some (IntArg r), \<lparr>errs = []\<rparr>)"
    and e: "q * 2 + r = - 7" and b: "\<bar>r\<bar> < \<bar>2::int\<bar>" and s: "r = 0 \<or> sgn r = sgn (- 7 :: int)" by blast
  from s have "r \<le> 0" by (simp add: sgn_if split: if_splits)
  with e b have "r = - 1 \<and> q = - 3" by arith
  with d m show ?thesis by simp
qed

lemma division_family_examples:
  "divBuiltin \<lparr>errs = []\<rparr> [IntArg 7, IntArg 2] = Returns (Some (IntArg 3), \<lparr>errs = []\<rparr>)"
  "modBuiltin \<lparr>errs = []\<rparr> [IntArg 7, IntArg 2] = Returns (Some (IntArg 1), \<lparr>errs = []\<rparr>)"
  "quoBuiltin \<lparr>errs = []\<rparr> [IntArg 7, IntArg (- 2)] = Returns (Some (IntArg (- 3)), \<lparr>errs = []\<rparr>)"
  "remBuiltin \<lparr>errs = []\<rparr> [IntArg 7, IntArg (- 2)] = Returns (Some (IntArg 1), \<lparr>errs = []\<rparr>)"
  by (simp_all add: divBuiltin_def modBuiltin_def quoBuiltin_def remBuiltin_def intDivOp_IntArg
      HasErr_def big_Int_Div_def big_Int_Mod_def big_Int_Quo_def big_Int_Rem_def QuoRem_def)

subsection \<open>Division by zero\<close>


lemma IsZero_round:
  assumes "IsZero d"
  shows "isInteger d \<and> IsZero (RoundToIntegralValue d)"
proof -
  have "\<not> (10::int) ^ nat (- Exponent d) \<le> 0" by (simp add: not_le)
  with assms show ?thesis
    by (simp add: IsZero_def isInteger_def RoundToIntegralValue_def Let_def)
qed



subsection \<open>Failed conversions\<close>

lemma Num_not_number:
  "\<not> isNumber v \<Longrightarrow> Num c v name = (zeroNum, c\<lparr>errs := errs c @ [(v, name)]\<rparr>)"
  by (cases v) (simp_all add: isNumber_def Num_def typeErrorAs_def)

lemma Num_number:
  "isNumber v \<Longrightarrow> \<exists>n. v = NumVal n \<and> Num c v name = (n, c)"
  by (cases v) (simp_all add: isNumber_def Num_def)

text \<open>
  C10. For every invocation of the division family in which the numeric conversion of
  either argument fails, the builtin returns nil, whatever the integer function is.
  Both conversions are made before the context is asked for a pending error: the
  context that comes back holds, after what it held before, the failure of the first
  argument if it failed and then the failure of the second argument if it failed.
\<close>

theorem conversion_failure_returns_nil:
  assumes "\<not> isNumber a0 \<or> \<not> isNumber a1"
  shows "\<exists>c'. intDivOp c fn name (a0 # a1 # rest) = Returns (None, c')
           \<and> HasErr c'
           \<and> errs c' = errs c @ map (\<lambda>v. (v, name)) (filter (\<lambda>v. \<not> isNumber v) [a0, a1])"
proof (cases "isNumber a0")
  case True
  with assms have n1: "\<not> isNumber a1" by simp
  from True obtain n where "Num c a0 name = (n, c)" using Num_number by blast
  then show ?thesis using True n1
    by (simp add: intDivOp_def Num_not_number HasErr_def)
next
  case False
  note n0 = this
  show ?thesis
  proof (cases "isNumber a1")
    case True
    then obtain n where
      "Num (c\<lparr>errs := errs c @ [(a0, name)]\<rparr>) a1 name = (n, c\<lparr>errs := errs c @ [(a0, name)]\<rparr>)"
      using Num_number by blast
    then show ?thesis using True n0
      by (simp add: intDivOp_def Num_not_number HasErr_def)
  next
    case False
    then show ?thesis using n0
      by (simp add: intDivOp_def Num_not_number HasErr_def)
  qed
qed

theorem conversion_failure_returns_nil_witness:
  "intDivOp \<lparr>errs = []\<rparr> big_Int_Div ''argument to div builtin'' [String ''a'', Top]
     = Returns (None, \<lparr>errs = [(String ''a'', ''argument to div builtin''),
                               (Top, ''argument to div builtin'')]\<rparr>)"
proof -
  have h: "\<not> isNumber (String ''a'') \<or> \<not> isNumber Top" by (simp add: isNumber_def)
  from conversion_failure_returns_nil [OF h, of "\<lparr>errs = []\<rparr>" big_Int_Div
      "''argument to div builtin''" "[]"]
  show ?thesis by (auto simp add: isNumber_def)
qed

subsection \<open>len\<close>

lemma NewInt64_IntArg: "NewInt64 c n = IntArg n"
  by (simp add: NewInt64_def IntArg_def)

lemma countRegular_filter:
  "countRegular h as n = n + length (filter (\<lambda>a. IsRegular (Label (cells h a))) as)"
  by (induction as arbitrary: n) simp_all

lemma lenBuiltin_unwrap:
  "unwrap h v = Some u \<Longrightarrow> lenBuiltin kind c h (v # rest) = Returns (lenValue kind c u)"
  by (cases v)
    (auto simp add: unwrap_def lenBuiltin_def split: option.splits BaseValue.splits)

text \<open>
  C4. \<open>len\<close> of a list node returns the number of its elements; \<open>len\<close> of a struct
  node returns the number of its arcs whose label is regular, hidden and definition
  arcs not counted; \<open>len\<close> of a byte sequence, given as such or as the scalar of a
  node, returns its length.
\<close>

theorem len_sizes:
  "(BaseValue (cells h p) = Some ListMarker \<longrightarrow>
      lenBuiltin kind c h (VertexRef p # rest)
        = Returns (IntArg (int (length (Elems (cells h p))))))
   \<and> (BaseValue (cells h p) = Some (StructMarker nc) \<longrightarrow>
      lenBuiltin kind c h (VertexRef p # rest)
        = Returns (IntArg (int (length
            (filter (\<lambda>a. IsRegular (Label (cells h a))) (Arcs (cells h p)))))))
   \<and> lenBuiltin kind c h (Bytes bs # rest) = Returns (IntArg (int (length bs)))
   \<and> (BaseValue (cells h p) = Some (BaseVal (Bytes bs)) \<longrightarrow>
      lenBuiltin kind c h (VertexRef p # rest) = Returns (IntArg (int (length bs))))"
  by (simp add: lenBuiltin_def lenValue_def NewInt64_IntArg countRegular_filter)

theorem len_sizes_witness:
  "lenBuiltin sampleKind \<lparr>errs = []\<rparr> sampleHeap [VertexRef 5] = Returns (IntArg 3)
   \<and> lenBuiltin sampleKind \<lparr>errs = []\<rparr> sampleHeap [VertexRef 0] = Returns (IntArg 2)
   \<and> lenBuiltin sampleKind \<lparr>errs = []\<rparr> sampleHeap [VertexRef 2] = Returns (IntArg 3)"
proof -
  have l: "BaseValue (cells sampleHeap 5) = Some ListMarker"
    by (simp add: sampleHeap_def sampleCells_def)
  have s: "BaseValue (cells sampleHeap 0) = Some (StructMarker False)"
    by (simp add: sampleHeap_def sampleCells_def)
  have b: "BaseValue (cells sampleHeap 2) = Some (BaseVal (Bytes [1, 2, 3]))"
    by (simp add: sampleHeap_def sampleCells_def)
  have 1: "lenBuiltin sampleKind \<lparr>errs = []\<rparr> sampleHeap [VertexRef 5] = Returns (IntArg 3)"
    using len_sizes [of sampleHeap 5 sampleKind "\<lparr>errs = []\<rparr>" "[]"] l
    by (simp add: sampleHeap_def sampleCells_def Elems_def)
  have 2: "lenBuiltin sampleKind \<lparr>errs = []\<rparr> sampleHeap [VertexRef 0] = Returns (IntArg 2)"
    using len_sizes [of sampleHeap 0 sampleKind "\<lparr>errs = []\<rparr>" "[]" False] s
    by (simp add: sampleHeap_def sampleCells_def)
  have 3: "lenBuiltin sampleKind \<lparr>errs = []\<rparr> sampleHeap [VertexRef 2] = Returns (IntArg 3)"
    using len_sizes [of sampleHeap 2 sampleKind "\<lparr>errs = []\<rparr>" "[]" _ "[1, 2, 3]"] b
    by simp
  from 1 2 3 show ?thesis by simp
qed

text \<open>
  C5 as stated does not hold. An unevaluated node is not a list or struct node and
  does not unwrap to bytes or a string, yet \<open>len\<close> answers it in its first switch
  with the hard error "unevaluated vertex", whatever the kind of the node: the
  message is not "invalid argument type" when the kind misses the accepted set, and
  the code is not \<open>IncompleteError\<close> when the kind meets it.
\<close>

theorem len_fallthrough_counterexample:
  "BaseValue (cells sampleHeap 7) = None
   \<and> lenBuiltin (\<lambda>_. TopKind) \<lparr>errs = []\<rparr> sampleHeap [VertexRef 7]
       = Returns (Bottom Error ''unevaluated vertex'' [])
   \<and> lenBuiltin (\<lambda>_. BottomKind) \<lparr>errs = []\<rparr> sampleHeap [VertexRef 7]
       = Returns (Bottom Error ''unevaluated vertex'' [])"
  by (simp add: lenBuiltin_def sampleHeap_def sampleCells_def zeroVertex_def NewErrf_def)

text \<open>
  C5, amended. For every argument to \<open>len\<close> that is not an unevaluated node, not a list
  or struct node and does not unwrap to bytes or a string, with \<open>u\<close> the value left
  after unwrapping: if the kind of \<open>u\<close> has empty intersection with the accepted kinds,
  \<open>len\<close> returns a \<open>Bottom\<close> with code \<open>Error\<close> and the message "invalid argument
  type" followed by the kind; otherwise it returns a \<open>Bottom\<close> with code
  \<open>IncompleteError\<close> and the message "incomplete argument" followed by the value and
  its kind. An unevaluated node gets the hard error "unevaluated vertex".
\<close>

theorem len_fallthrough:
  "(unwrap h v = Some u \<and> (\<forall>b. u \<noteq> Bytes b) \<and> (\<forall>s. u \<noteq> String s) \<longrightarrow>
      lenBuiltin kind c h (v # rest) =
        Returns
          (if kind u \<inter> supportedByLen = BottomKind
           then Bottom Error ''invalid argument type %v'' [KindArg (kind u)]
           else Bottom IncompleteError ''incomplete argument %s (type %v)''
                  [StrArg u, KindArg (kind u)]))
   \<and> (BaseValue (cells h p) = None \<longrightarrow>
        lenBuiltin kind c h (VertexRef p # rest) = Returns (Bottom Error ''unevaluated vertex'' []))"
proof (intro conjI impI)
  assume a: "unwrap h v = Some u \<and> (\<forall>b. u \<noteq> Bytes b) \<and> (\<forall>s. u \<noteq> String s)"
  then have lv: "lenValue kind c u =
      (if kind u \<inter> supportedByLen = BottomKind
       then Bottom Error ''invalid argument type %v'' [KindArg (kind u)]
       else Bottom IncompleteError ''incomplete argument %s (type %v)''
              [StrArg u, KindArg (kind u)])"
    by (cases u) (simp_all add: lenValue_def NewErrf_def Let_def)
  from a have "lenBuiltin kind c h (v # rest) = Returns (lenValue kind c u)"
    by (simp add: lenBuiltin_unwrap)
  with lv show "lenBuiltin kind c h (v # rest) =
        Returns
          (if kind u \<inter> supportedByLen = BottomKind
           then Bottom Error ''invalid argument type %v'' [KindArg (kind u)]
           else Bottom IncompleteError ''incomplete argument %s (type %v)''
                  [StrArg u, KindArg (kind u)])"
    by simp
next
  assume "BaseValue (cells h p) = None"
  then show "lenBuiltin kind c h (VertexRef p # rest)
      = Returns (Bottom Error ''unevaluated vertex'' [])"
    by (simp add: lenBuiltin_def NewErrf_def)
qed

theorem len_fallthrough_witness:
  "lenBuiltin sampleKind \<lparr>errs = []\<rparr> sampleHeap [VertexRef 4]
     = Returns (Bottom Error ''invalid argument type %v'' [KindArg IntKind])
   \<and> lenBuiltin sampleKind \<lparr>errs = []\<rparr> sampleHeap [VertexRef 3]
     = Returns (Bottom IncompleteError ''incomplete argument %s (type %v)''
                  [StrArg (BasicType StringKind), KindArg StringKind])
   \<and> lenBuiltin sampleKind \<lparr>errs = []\<rparr> sampleHeap [VertexRef 7]
     = Returns (Bottom Error ''unevaluated vertex'' [])"
proof -
  have u4: "unwrap sampleHeap (VertexRef 4) = Some (IntArg 5)"
    by (simp add: unwrap_def sampleHeap_def sampleCells_def)
  have u3: "unwrap sampleHeap (VertexRef 3) = Some (BasicType StringKind)"
    by (simp add: unwrap_def sampleHeap_def sampleCells_def)
  have u7: "BaseValue (cells sampleHeap 7) = None"
    by (simp add: sampleHeap_def sampleCells_def zeroVertex_def)
  have n4: "(\<forall>b. IntArg 5 \<noteq> Bytes b) \<and> (\<forall>s. IntArg 5 \<noteq> String s)"
    by (simp add: IntArg_def)
  have n3: "(\<forall>b. BasicType StringKind \<noteq> Bytes b) \<and> (\<forall>s. BasicType StringKind \<noteq> String s)"
    by simp
  have k4: "sampleKind (IntArg 5) \<inter> supportedByLen = BottomKind"
    by (simp add: IntArg_def IntKind_def supportedByLen_def StructKind_def BytesKind_def
        StringKind_def ListKind_def BottomKind_def)
  have k3: "sampleKind (BasicType StringKind) \<inter> supportedByLen \<noteq> BottomKind"
    by (simp add: supportedByLen_def StructKind_def BytesKind_def
        StringKind_def ListKind_def BottomKind_def)
  have s4: "sampleKind (IntArg 5) = IntKind" by (simp add: IntArg_def)
  from len_fallthrough [of sampleHeap "VertexRef 4" "IntArg 5" sampleKind "\<lparr>errs = []\<rparr>" "[]" 7]
       len_fallthrough [of sampleHeap "VertexRef 3" "BasicType StringKind" sampleKind
         "\<lparr>errs = []\<rparr>" "[]" 7]
       u4 u3 u7 n4 n3 k4 k3 s4
  show ?thesis by simp
qed

subsection \<open>close\<close>

lemma closeBuiltin_closed:
  "IsClosed (cells h s) \<Longrightarrow> closeBuiltin c h (VertexRef s # rest) = Returns (VertexRef s, h)"
  by (simp add: closeBuiltin_def)

lemma closeBuiltin_open:
  "\<not> IsClosed (cells h s) \<Longrightarrow>
     closeBuiltin c h (VertexRef s # rest) =
       Returns (VertexRef (allocated h),
                h\<lparr>cells := (cells h)
                     (allocated h := (cells h s)\<lparr>BaseValue := Some (StructMarker True)\<rparr>),
                  allocated := Suc (allocated h)\<rparr>)"
  by (simp add: closeBuiltin_def alloc_def)

lemma IsClosed_marked: "IsClosed (x\<lparr>BaseValue := Some (StructMarker True)\<rparr>)"
  by (simp add: IsClosed_def)

text \<open>
  C6. \<open>close\<close> is idempotent: for every node \<open>s\<close>, \<open>close\<close> returns a node \<open>r\<close>, and
  \<open>close\<close> of \<open>r\<close> in the store left by the first call returns the same node \<open>r\<close>
  and leaves that store as it is. When \<open>s\<close> is already closed, \<open>close\<close> returns \<open>s\<close>
  itself and the store is unchanged, so nothing was allocated.
\<close>

theorem close_idempotent:
  "\<exists>r h'. closeBuiltin c h [VertexRef s] = Returns (r, h')
      \<and> closeBuiltin c h' [r] = Returns (r, h')
      \<and> (IsClosed (cells h s) \<longrightarrow> r = VertexRef s \<and> h' = h)"
proof (cases "IsClosed (cells h s)")
  case True
  then show ?thesis by (simp add: closeBuiltin_closed)
next
  case False
  let ?h' = "h\<lparr>cells := (cells h)
                  (allocated h := (cells h s)\<lparr>BaseValue := Some (StructMarker True)\<rparr>),
                allocated := Suc (allocated h)\<rparr>"
  have "IsClosed (cells ?h' (allocated h))" by (simp add: IsClosed_marked)
  then have "closeBuiltin c ?h' [VertexRef (allocated h)] = Returns (VertexRef (allocated h), ?h')"
    by (rule closeBuiltin_closed)
  with False show ?thesis by (simp add: closeBuiltin_open)
qed

theorem close_idempotent_witness:
  "closeBuiltin \<lparr>errs = []\<rparr> sampleHeap [VertexRef 8] = Returns (VertexRef 8, sampleHeap)
   \<and> closeBuiltin \<lparr>errs = []\<rparr> sampleHeap [VertexRef 0]
     = Returns (VertexRef 9,
         sampleHeap\<lparr>cells := (cells sampleHeap)
                        (9 := (cells sampleHeap 0)\<lparr>BaseValue := Some (StructMarker True)\<rparr>),
                    allocated := 10\<rparr>)
   \<and> closeBuiltin \<lparr>errs = []\<rparr>
        (sampleHeap\<lparr>cells := (cells sampleHeap)
                        (9 := (cells sampleHeap 0)\<lparr>BaseValue := Some (StructMarker True)\<rparr>),
                    allocated := 10\<rparr>) [VertexRef 9]
     = Returns (VertexRef 9,
         sampleHeap\<lparr>cells := (cells sampleHeap)
                        (9 := (cells sampleHeap 0)\<lparr>BaseValue := Some (StructMarker True)\<rparr>),
                    allocated := 10\<rparr>)"
proof -
  have c8: "IsClosed (cells sampleHeap 8)"
    by (simp add: IsClosed_def sampleHeap_def sampleCells_def)
  have o: "closeBuiltin \<lparr>errs = []\<rparr> sampleHeap [VertexRef 0]
     = Returns (VertexRef 9,
         sampleHeap\<lparr>cells := (cells sampleHeap)
                        (9 := (cells sampleHeap 0)\<lparr>BaseValue := Some (StructMarker True)\<rparr>),
                    allocated := 10\<rparr>)"
    by (simp add: closeBuiltin_def alloc_def IsClosed_def sampleHeap_def sampleCells_def)
  from close_idempotent [of "\<lparr>errs = []\<rparr>" sampleHeap 8] c8
  have 1: "closeBuiltin \<lparr>errs = []\<rparr> sampleHeap [VertexRef 8] = Returns (VertexRef 8, sampleHeap)"
    by auto
  from close_idempotent [of "\<lparr>errs = []\<rparr>" sampleHeap 0] o
  have 2: "closeBuiltin \<lparr>errs = []\<rparr>
        (sampleHeap\<lparr>cells := (cells sampleHeap)
                        (9 := (cells sampleHeap 0)\<lparr>BaseValue := Some (StructMarker True)\<rparr>),
                    allocated := 10\<rparr>) [VertexRef 9]
     = Returns (VertexRef 9,
         sampleHeap\<lparr>cells := (cells sampleHeap)
                        (9 := (cells sampleHeap 0)\<lparr>BaseValue := Some (StructMarker True)\<rparr>),
                    allocated := 10\<rparr>)"
    by auto
  from 1 o 2 show ?thesis by simp
qed

text \<open>
  C7. \<open>close\<close> does not write to its input: after the call every node that was in
  use, the input \<open>s\<close> and the nodes of its arcs among them, is as before, so the
  closedness marker and the arcs of \<open>s\<close> are unchanged. When \<open>s\<close> is not closed, the
  result is a node at an address that was not in use; it is the input with only its
  \<open>BaseValue\<close> replaced by a struct marker that is closed, every other field equal
  to the input's, and its arcs are the same pointers as the input's.
\<close>

theorem close_frame:
  assumes "s < allocated h"
  shows "\<exists>r h'. closeBuiltin c h [VertexRef s] = Returns (r, h')
      \<and> (\<forall>a < allocated h. cells h' a = cells h a)
      \<and> BaseValue (cells h' s) = BaseValue (cells h s)
      \<and> Arcs (cells h' s) = Arcs (cells h s)
      \<and> (\<not> IsClosed (cells h s) \<longrightarrow>
            r = VertexRef (allocated h)
          \<and> allocated h' = Suc (allocated h)
          \<and> cells h' (allocated h) = (cells h s)\<lparr>BaseValue := Some (StructMarker True)\<rparr>
          \<and> Label (cells h' (allocated h)) = Label (cells h s)
          \<and> Arcs (cells h' (allocated h)) = Arcs (cells h s)
          \<and> Conjuncts (cells h' (allocated h)) = Conjuncts (cells h s)
          \<and> IsClosed (cells h' (allocated h)))"
proof (cases "IsClosed (cells h s)")
  case True
  then show ?thesis by (simp add: closeBuiltin_closed)
next
  case False
  with assms show ?thesis by (simp add: closeBuiltin_open IsClosed_marked)
qed

theorem close_frame_witness:
  "\<exists>h'. closeBuiltin \<lparr>errs = []\<rparr> sampleHeap [VertexRef 0] = Returns (VertexRef 9, h')
      \<and> cells h' 0 = cells sampleHeap 0
      \<and> \<not> IsClosed (cells h' 0)
      \<and> Arcs (cells h' 9) = [1, 2, 3, 4]
      \<and> BaseValue (cells h' 9) = Some (StructMarker True)"
proof -
  have a: "0 < allocated sampleHeap" by (simp add: sampleHeap_def)
  have n: "\<not> IsClosed (cells sampleHeap 0)"
    by (simp add: IsClosed_def sampleHeap_def sampleCells_def)
  have al: "allocated sampleHeap = 9" by (simp add: sampleHeap_def)
  have ar: "Arcs (cells sampleHeap 0) = [1, 2, 3, 4]" by (simp add: sampleHeap_def sampleCells_def)
  from close_frame [OF a, of "\<lparr>errs = []\<rparr>"] n al ar show ?thesis by auto
qed

subsection \<open>and, or\<close>

lemma foldl_snoc_map: "foldl (\<lambda>a e. a @ [f e]) acc xs = acc @ map f xs"
  by (induction xs arbitrary: acc) simp_all

lemma OpContext_Elems_list:
  "BaseValue (cells h p) = Some ListMarker \<Longrightarrow>
     OpContext_Elems c h (VertexRef p) = (Elems (cells h p), c)"
  by (simp add: OpContext_Elems_def)

text \<open>
  C8. \<open>and\<close> of a list with no elements returns \<open>Top\<close>; \<open>and\<close> of a list with
  elements returns the conjunction whose values are exactly the elements of the
  list, in their order, and nothing is evaluated: the context comes back unchanged.
\<close>

theorem and_fold:
  assumes "BaseValue (cells h p) = Some ListMarker"
  shows "andBuiltin c h [VertexRef p] =
           Returns (if Elems (cells h p) = [] then Top
                    else Conjunction (map VertexRef (Elems (cells h p))), c)"
  using assms by (simp add: andBuiltin_def OpContext_Elems_list foldl_snoc_map)

theorem and_fold_witness:
  "andBuiltin \<lparr>errs = []\<rparr> sampleHeap [VertexRef 6] = Returns (Top, \<lparr>errs = []\<rparr>)
   \<and> andBuiltin \<lparr>errs = []\<rparr> sampleHeap [VertexRef 5]
       = Returns (Conjunction [VertexRef 1, VertexRef 4, VertexRef 1], \<lparr>errs = []\<rparr>)"
proof -
  have l6: "BaseValue (cells sampleHeap 6) = Some ListMarker"
    by (simp add: sampleHeap_def sampleCells_def)
  have l5: "BaseValue (cells sampleHeap 5) = Some ListMarker"
    by (simp add: sampleHeap_def sampleCells_def)
  have e6: "Elems (cells sampleHeap 6) = []" by (simp add: Elems_def sampleHeap_def sampleCells_def)
  have e5: "Elems (cells sampleHeap 5) = [1, 4, 1]"
    by (simp add: Elems_def sampleHeap_def sampleCells_def)
  from and_fold [OF l6, of "\<lparr>errs = []\<rparr>"] and_fold [OF l5, of "\<lparr>errs = []\<rparr>"] e6 e5
  show ?thesis by simp
qed

text \<open>
  C9. \<open>or\<close> of a list with no elements returns a \<open>Bottom\<close> with code \<open>IncompleteError\<close>
  and the message "empty list in call to or", and changes nothing. \<open>or\<close> of a list
  with elements builds the disjunction \<open>d\<close> of the elements in their order, every
  alternative marked non-default, allocates a new zero node \<open>v\<close> at an address not
  in use, adds the disjunction to it as its only conjunct, a root conjunct, runs the
  unifier of the engine on \<open>v\<close> up to \<open>Finalized\<close>, and returns the node \<open>v\<close> with the
  context and the store that the unifier left.
\<close>

theorem or_fold:
  assumes "BaseValue (cells h p) = Some ListMarker"
  shows "(Elems (cells h p) = [] \<longrightarrow>
            orBuiltin unify c h [VertexRef p]
              = Returns (Bottom IncompleteError ''empty list in call to or'' [], c, h))
       \<and> (Elems (cells h p) \<noteq> [] \<longrightarrow>
            (\<exists>d v h2.
                d = map (\<lambda>e. Disjunct (ValueExpr (VertexRef e)) False) (Elems (cells h p))
              \<and> (\<forall>alt \<in> set d. \<not> Default alt)
              \<and> v = allocated h
              \<and> h2 = h\<lparr>cells := (cells h)
                           (v := zeroVertex\<lparr>Conjuncts :=
                                   [\<lparr>Env = None, Expr = DisjunctionExpr d False\<rparr>]\<rparr>),
                        allocated := Suc v\<rparr>
              \<and> orBuiltin unify c h [VertexRef p]
                  = Returns (VertexRef v, fst (unify c h2 v Finalized),
                             snd (unify c h2 v Finalized))))"
proof (cases h)
  case (fields cs n)
  with assms show ?thesis
    by (auto simp add: orBuiltin_def OpContext_Elems_list foldl_snoc_map alloc_def AddConjunct_def
        MakeRootConjunct_def zeroVertex_def split: prod.splits)
qed

theorem or_fold_witness:
  "orBuiltin sampleUnify \<lparr>errs = []\<rparr> sampleHeap [VertexRef 6]
     = Returns (Bottom IncompleteError ''empty list in call to or'' [], \<lparr>errs = []\<rparr>, sampleHeap)
   \<and> (\<exists>h3. orBuiltin sampleUnify \<lparr>errs = []\<rparr> sampleHeap [VertexRef 5]
              = Returns (VertexRef 9, \<lparr>errs = []\<rparr>, h3)
          \<and> BaseValue (cells h3 9) = Some (BaseVal Top)
          \<and> Conjuncts (cells h3 9) =
              [\<lparr>Env = None,
                Expr = DisjunctionExpr
                         [Disjunct (ValueExpr (VertexRef 1)) False,
                          Disjunct (ValueExpr (VertexRef 4)) False,
                          Disjunct (ValueExpr (VertexRef 1)) False] False\<rparr>])"
proof -
  have l6: "BaseValue (cells sampleHeap 6) = Some ListMarker"
    by (simp add: sampleHeap_def sampleCells_def)
  have l5: "BaseValue (cells sampleHeap 5) = Some ListMarker"
    by (simp add: sampleHeap_def sampleCells_def)
  have e6: "Elems (cells sampleHeap 6) = []" by (simp add: Elems_def sampleHeap_def sampleCells_def)
  have e5: "Elems (cells sampleHeap 5) = [1, 4, 1]"
    by (simp add: Elems_def sampleHeap_def sampleCells_def)
  have al: "allocated sampleHeap = 9" by (simp add: sampleHeap_def)
  from or_fold [OF l6, of sampleUnify "\<lparr>errs = []\<rparr>"] e6
  have 1: "orBuiltin sampleUnify \<lparr>errs = []\<rparr> sampleHeap [VertexRef 6]
     = Returns (Bottom IncompleteError ''empty list in call to or'' [], \<lparr>errs = []\<rparr>, sampleHeap)"
    by simp
  from or_fold [OF l5, of sampleUnify "\<lparr>errs = []\<rparr>"] e5 al
  have 2: "\<exists>h3. orBuiltin sampleUnify \<lparr>errs = []\<rparr> sampleHeap [VertexRef 5]
              = Returns (VertexRef 9, \<lparr>errs = []\<rparr>, h3)
          \<and> BaseValue (cells h3 9) = Some (BaseVal Top)
          \<and> Conjuncts (cells h3 9) =
              [\<lparr>Env = None,
                Expr = DisjunctionExpr
                         [Disjunct (ValueExpr (VertexRef 1)) False,
                          Disjunct (ValueExpr (VertexRef 4)) False,
                          Disjunct (ValueExpr (VertexRef 1)) False] False\<rparr>]"
    by (simp add: sampleUnify_def zeroVertex_def)
  from 1 2 show ?thesis by simp
qed

end
